theory Spec2Isabelle
  imports Complex_Main "HOL-Library.AList"
begin

section \<open>Python values, errors and strings\<close>

text \<open>
  The training script \<^verbatim>\<open>ct_classifier/train.py\<close> and its helper
  \<^verbatim>\<open>ct_classifier/util.py\<close> are embedded function by function. An exception is a
  value of \<open>error\<close>; a function that can raise returns \<open>error + 'a\<close>. Python floats are
  idealised as \<open>real\<close> (rounding is not represented); tensors are values of an opaque
  type \<open>'t\<close>, and everything PyTorch computes on them is a field of the record
  \<open>torch\<close> further down.
\<close>

datatype error =
    KeyError string
  | ValueError string
  | TypeError
  | ZeroDivisionError
  | FileNotFoundError string
  | UnpicklingError string
  | RuntimeError

text \<open>The values a YAML configuration file binds its keys to.\<close>

datatype cfgval = CNone | CBool bool | CInt int | CFloat real | CStr string

type_synonym config = "string \<rightharpoonup> cfgval"

text \<open>\<^verbatim>\<open>cfg[k]\<close> raises \<^verbatim>\<open>KeyError\<close> on a missing key; \<^verbatim>\<open>cfg.get(k, d)\<close> does not.\<close>

definition cfg_item :: "config \<Rightarrow> string \<Rightarrow> error + cfgval" where
  "cfg_item cfg k = (case cfg k of None \<Rightarrow> Inl (KeyError k) | Some v \<Rightarrow> Inr v)"

definition cfg_get :: "config \<Rightarrow> string \<Rightarrow> cfgval \<Rightarrow> cfgval" where
  "cfg_get cfg k d = (case cfg k of None \<Rightarrow> d | Some v \<Rightarrow> v)"

text \<open>Python's truth value of an object, as \<^verbatim>\<open>if not self._enabled\<close> tests it.\<close>

fun truthy :: "cfgval \<Rightarrow> bool" where
  "truthy CNone = False"
| "truthy (CBool b) = b"
| "truthy (CInt i) = (i \<noteq> 0)"
| "truthy (CFloat r) = (r \<noteq> 0)"
| "truthy (CStr s) = (s \<noteq> [])"



subsection \<open>Decimal text of integers\<close>

definition is_digit :: "char \<Rightarrow> bool" where
  "is_digit c = (48 \<le> (of_char c :: nat) \<and> (of_char c :: nat) \<le> 57)"

definition digit_val :: "char \<Rightarrow> nat" where
  "digit_val c = of_char c - 48"

definition digit_char :: "nat \<Rightarrow> char" where
  "digit_char d = char_of (48 + d)"

text \<open>\<^verbatim>\<open>str(n)\<close> for a natural number, and for an int as an f-string formats it.\<close>

function dec :: "nat \<Rightarrow> string" where
  "dec n = (if n < 10 then [digit_char n] else dec (n div 10) @ [digit_char (n mod 10)])"
  by pat_completeness auto
termination
  by (relation "measure (\<lambda>n. n)") auto

declare dec.simps [simp del]

definition py_str_int :: "int \<Rightarrow> string" where
  "py_str_int i = (if i < 0 then CHR ''-'' # dec (nat (- i)) else dec (nat i))"

text \<open>
  \<^verbatim>\<open>int(s)\<close> on a string, base ten: surrounding ASCII whitespace is stripped, one
  sign is allowed, and the digits may be grouped by single underscores. Anything else
  raises \<^verbatim>\<open>ValueError\<close>. (Python also accepts non-ASCII decimal digits and
  whitespace; file names of that kind are outside this model.)
\<close>

definition is_space :: "char \<Rightarrow> bool" where
  "is_space c = (c \<in> set [CHR '' '', CHR 0x09, CHR 0x0A, CHR 0x0B, CHR 0x0C, CHR 0x0D])"

definition py_strip :: "string \<Rightarrow> string" where
  "py_strip s = rev (dropWhile is_space (rev (dropWhile is_space s)))"

fun parse_digits :: "nat \<Rightarrow> bool \<Rightarrow> string \<Rightarrow> nat option" where
  "parse_digits acc after_digit [] = (if after_digit then Some acc else None)"
| "parse_digits acc after_digit (c # cs) =
     (if is_digit c then parse_digits (acc * 10 + digit_val c) True cs
      else if c = CHR ''_'' \<and> after_digit \<and> cs \<noteq> [] \<and> is_digit (hd cs)
        then parse_digits acc False cs
      else None)"

definition py_int :: "string \<Rightarrow> error + int" where
  "py_int s =
     (case py_strip s of
        [] \<Rightarrow> Inl (ValueError s)
      | c # cs \<Rightarrow>
          (if c = CHR ''-'' then
             (case parse_digits 0 False cs of
                None \<Rightarrow> Inl (ValueError s) | Some n \<Rightarrow> Inr (- int n))
           else if c = CHR ''+'' then
             (case parse_digits 0 False cs of
                None \<Rightarrow> Inl (ValueError s) | Some n \<Rightarrow> Inr (int n))
           else
             (case parse_digits 0 False (c # cs) of
                None \<Rightarrow> Inl (ValueError s) | Some n \<Rightarrow> Inr (int n))))"

text \<open>
  \<^verbatim>\<open>s.replace(old, new)\<close>: every non-overlapping occurrence of \<open>old\<close>, scanning from
  the left. With an empty \<open>old\<close> Python puts \<open>new\<close> before every character and at the end.
\<close>

fun replace_ne :: "string \<Rightarrow> string \<Rightarrow> string \<Rightarrow> string" where
  "replace_ne [] old new = []"
| "replace_ne (c # cs) old new =
     (if old \<noteq> [] \<and> take (length old) (c # cs) = old
      then new @ replace_ne (drop (length old - 1) cs) old new
      else c # replace_ne cs old new)"

definition py_replace :: "string \<Rightarrow> string \<Rightarrow> string \<Rightarrow> string" where
  "py_replace s old new =
     (if old = [] then new @ concat (map (\<lambda>c. c # new) s) else replace_ne s old new)"


section \<open>Process state: random sources, backend flags, console, clock, files\<close>

text \<open>
  \<^verbatim>\<open>util.init_seed\<close> writes process-wide state: the seeds of Python's \<^verbatim>\<open>random\<close>,
  of torch's host generator and of the CUDA generator, and the two cuDNN flags.
  \<open>None\<close> is a source that was never seeded.
\<close>

record process =
  py_random_seed :: "cfgval option"
  torch_seed :: "cfgval option"
  cuda_seed :: "cfgval option"
  cudnn_benchmark :: bool
  cudnn_deterministic :: bool


text \<open>What the script writes to the terminal: its \<^verbatim>\<open>print\<close> lines and the progress-bar
  descriptions (the numbers are kept, their formatting is not).\<close>

datatype line =
    PrWarnDevice cfgval
  | PrResuming int
  | PrStartingNew
  | PrEpoch int cfgval
  | PbDescription string real real
  | PrDataloaderTime real
  | PrModelTime real
  | PrPostprocessingTime real

text \<open>The optimizer's hyperparameters, and the gradient scaler of
  \<^verbatim>\<open>torch.cuda.amp.GradScaler\<close>: its \<open>enabled\<close> flag, the current scale factor, the
  count of consecutive finite steps, and whether the last \<^verbatim>\<open>step\<close> found a non-finite
  gradient.\<close>

record sgd =
  lr :: cfgval
  weight_decay :: cfgval

record grad_scaler =
  enabled :: bool
  scale :: real
  growth_tracker :: nat
  found_inf :: bool

text \<open>A checkpoint is the pickled \<^verbatim>\<open>stats\<close> dictionary; its values are the four floats and
  the three state dictionaries.\<close>

datatype 't statval =
    SFloat real
  | SModel 't
  | SOptim sgd
  | SScaler "(real \<times> nat) option"

type_synonym 't stats = "string \<rightharpoonup> 't statval"

datatype 't stored = Checkpoint "'t stats" | ConfigYaml config | Blob

text \<open>
  The files under the working directory, in the order the directory lists them; the
  wall clock as the sequence of readings \<^verbatim>\<open>time.time()\<close> returns, with the number of
  readings taken so far.
\<close>

record 't world =
  fs :: "(string \<times> 't stored) list"
  proc :: process
  console :: "line list"
  clock :: "nat \<Rightarrow> real"
  ticks :: nat

definition py_print :: "line \<Rightarrow> 't world \<Rightarrow> 't world" where
  "py_print x w = w\<lparr>console := console w @ [x]\<rparr>"

definition time_sync :: "'t world \<Rightarrow> real \<times> 't world" where
  "time_sync w = (clock w (ticks w), w\<lparr>ticks := Suc (ticks w)\<rparr>)"


section \<open>The collaborators\<close>

text \<open>
  The network, its loss, automatic differentiation, the optimizer's update rule and the
  data set are not part of the script. They are the fields of \<open>torch\<close>, over opaque tensors
  \<open>'t\<close>. A module holds its trainable parameters, the gradient slot of those parameters,
  its mode and its device; buffers that are not parameters are not represented.
  An autocast region is the pair of arguments in which the script's two calls of
  \<^verbatim>\<open>torch.autocast\<close> can differ, the device type and the \<^verbatim>\<open>enabled\<close> flag (the dtype
  is \<^verbatim>\<open>float16\<close> in both).
\<close>

record autocast =
  device_type :: cfgval
  ac_enabled :: bool

record 't module =
  params :: 't
  grad :: "'t option"
  training :: bool
  device :: cfgval

record 't torch =
  cuda_is_available :: bool
  loader_batches :: "config \<Rightarrow> string \<Rightarrow> cfgval \<Rightarrow> cfgval \<Rightarrow> ('t \<times> 't) list"
  CustomResNet18 :: "cfgval \<Rightarrow> 't"
  to_device :: "cfgval \<Rightarrow> 't \<Rightarrow> 't"
  forward :: "'t \<Rightarrow> bool \<Rightarrow> autocast \<Rightarrow> 't \<Rightarrow> 't"
  CrossEntropyLoss :: "autocast option \<Rightarrow> 't \<Rightarrow> 't \<Rightarrow> real"
  backward :: "'t \<Rightarrow> bool \<Rightarrow> autocast \<Rightarrow> 't \<Rightarrow> 't \<Rightarrow> real \<Rightarrow> 't option \<Rightarrow> 't"
  unscale :: "real \<Rightarrow> 't \<Rightarrow> 't"
  nonfinite :: "'t \<Rightarrow> bool"
  SGD_step :: "sgd \<Rightarrow> 't \<Rightarrow> 't \<Rightarrow> 't"
  argmax :: "'t \<Rightarrow> 't"
  mean_eq :: "'t \<Rightarrow> 't \<Rightarrow> real"

text \<open>
  \<^item> \<open>loader_batches c cfg split bs nw\<close>: the batches, each a pair of data and labels, that
    \<^verbatim>\<open>DataLoader(CTDataset(cfg, split), batch_size=bs, shuffle=True, num_workers=nw)\<close>
    yields on a traversal; \<^verbatim>\<open>len\<close> of the loader is the length of that list.
  \<^item> \<open>forward c p tr ac x\<close>: \<^verbatim>\<open>model(x)\<close> with parameters \<open>p\<close>, in training mode iff \<open>tr\<close>,
    inside the autocast region \<open>ac\<close>.
  \<^item> \<open>CrossEntropyLoss c r pred labels\<close>: the value of \<^verbatim>\<open>criterion(pred, labels)\<close>
    computed inside the autocast region \<open>r\<close>, or outside any region when \<open>r = None\<close>.
  \<^item> \<open>backward c p tr ac x y k g\<close>: the gradient slot after \<^verbatim>\<open>(k * loss).backward()\<close>, the
    slot holding \<open>g\<close> before.
  \<^item> \<open>unscale c k g\<close> divides a gradient by the scale \<open>k\<close>; \<open>nonfinite c g\<close> holds iff \<open>g\<close>
    has an \<^verbatim>\<open>inf\<close> or \<^verbatim>\<open>NaN\<close> entry.
  \<^item> \<open>SGD_step c opt p g\<close>: the parameters after \<^verbatim>\<open>optimizer.step()\<close>.
  \<^item> \<open>mean_eq c a b\<close>: the value of \<^verbatim>\<open>torch.mean((a == b).float())\<close>.
\<close>

subsection \<open>The gradient scaler\<close>

text \<open>
  \<^verbatim>\<open>GradScaler\<close> follows the library's documented contract. A disabled scaler leaves
  the loss unscaled, \<^verbatim>\<open>step\<close> calls \<^verbatim>\<open>optimizer.step()\<close> whatever the gradients are,
  and \<^verbatim>\<open>update\<close> does nothing. An enabled scaler checks the gradients for \<^verbatim>\<open>inf\<close> and
  \<^verbatim>\<open>NaN\<close> and unscales them in place, skips \<^verbatim>\<open>optimizer.step()\<close> when one of them is
  non-finite, and \<^verbatim>\<open>update\<close> then halves the scale; after 2000 consecutive finite
  steps it doubles the scale. The constructor disables a scaler that is asked for while
  CUDA is unavailable. \<open>GradScaler_step c sc opt m g\<close> is \<^verbatim>\<open>scaler.step(optimizer)\<close> on a module
  whose gradient slot holds \<open>g\<close>, as it does after the backward pass.
\<close>

definition GradScaler :: "'t torch \<Rightarrow> cfgval \<Rightarrow> grad_scaler" where
  "GradScaler c e =
     \<lparr>enabled = (truthy e \<and> cuda_is_available c), scale = 65536, growth_tracker = 0,
      found_inf = False\<rparr>"

definition GradScaler_scale :: "grad_scaler \<Rightarrow> real" where
  "GradScaler_scale sc = (if enabled sc then scale sc else 1)"

definition GradScaler_step ::
  "'t torch \<Rightarrow> grad_scaler \<Rightarrow> sgd \<Rightarrow> 't module \<Rightarrow> 't \<Rightarrow> 't module \<times> grad_scaler" where
  "GradScaler_step c sc opt m g =
     (if \<not> enabled sc then (m\<lparr>params := SGD_step c opt (params m) g\<rparr>, sc)
      else
        (let found = nonfinite c g;
             g' = unscale c (scale sc) g;
             m' = m\<lparr>grad := Some g'\<rparr>
         in if found then (m', sc\<lparr>found_inf := True\<rparr>)
            else (m'\<lparr>params := SGD_step c opt (params m') g'\<rparr>,
                  sc\<lparr>found_inf := False\<rparr>)))"

definition GradScaler_update :: "grad_scaler \<Rightarrow> grad_scaler" where
  "GradScaler_update sc =
     (if \<not> enabled sc then sc
      else if found_inf sc then
        sc\<lparr>scale := scale sc * 0.5, growth_tracker := 0, found_inf := False\<rparr>
      else if growth_tracker sc + 1 = 2000 then
        sc\<lparr>scale := scale sc * 2, growth_tracker := 0\<rparr>
      else sc\<lparr>growth_tracker := growth_tracker sc + 1\<rparr>)"

definition GradScaler_state_dict :: "grad_scaler \<Rightarrow> (real \<times> nat) option" where
  "GradScaler_state_dict sc =
     (if enabled sc then Some (scale sc, growth_tracker sc) else None)"

definition GradScaler_load_state_dict :: "grad_scaler \<Rightarrow> 't statval \<Rightarrow> error + grad_scaler" where
  "GradScaler_load_state_dict sc v =
     (if \<not> enabled sc then Inr sc
      else (case v of
              SScaler None \<Rightarrow> Inl RuntimeError
            | SScaler (Some (s, t)) \<Rightarrow> Inr (sc\<lparr>scale := s, growth_tracker := t\<rparr>)
            | _ \<Rightarrow> Inl TypeError))"

definition Module_load_state_dict :: "'t module \<Rightarrow> 't statval \<Rightarrow> error + 't module" where
  "Module_load_state_dict m v =
     (case v of SModel p \<Rightarrow> Inr (m\<lparr>params := p\<rparr>) | _ \<Rightarrow> Inl TypeError)"

definition SGD_load_state_dict :: "sgd \<Rightarrow> 't statval \<Rightarrow> error + sgd" where
  "SGD_load_state_dict opt v = (case v of SOptim opt' \<Rightarrow> Inr opt' | _ \<Rightarrow> Inl TypeError)"


section \<open>\<^verbatim>\<open>train.py\<close>: loaders, optimizer, checkpoint store\<close>


definition setup_optimizer :: "config \<Rightarrow> 't module \<Rightarrow> error + sgd" where
  "setup_optimizer cfg m =
     (case cfg_item cfg ''learning_rate'' of
        Inl e \<Rightarrow> Inl e
      | Inr l \<Rightarrow>
          (case cfg_item cfg ''weight_decay'' of
             Inl e \<Rightarrow> Inl e
           | Inr wd \<Rightarrow> Inr \<lparr>lr = l, weight_decay = wd\<rparr>))"

text \<open>
  \<^verbatim>\<open>glob.glob('model_states/*.pt')\<close>: the paths of the store, in directory order, whose
  last component ends in \<^verbatim>\<open>.pt\<close> and does not start with a dot.
\<close>

definition matches_pt :: "string \<Rightarrow> bool" where
  "matches_pt p =
     (take 13 p = ''model_states/'' \<and>
      (let name = drop 13 p
       in 3 \<le> length name \<and> drop (length name - 3) name = ''.pt'' \<and>
          CHR ''/'' \<notin> set name \<and> hd name \<noteq> CHR ''.''))"

definition glob_model_states :: "'t world \<Rightarrow> string list" where
  "glob_model_states w = filter matches_pt (map fst (fs w))"

text \<open>The list comprehension of line 62, which stops at the first name that is not a
  number, and \<^verbatim>\<open>max\<close>.\<close>

fun model_epochs :: "string list \<Rightarrow> error + int list" where
  "model_epochs [] = Inr []"
| "model_epochs (m # ms) =
     (case py_int (py_replace (py_replace m ''model_states/'' []) ''.pt'' []) of
        Inl e \<Rightarrow> Inl e
      | Inr i \<Rightarrow> (case model_epochs ms of Inl e \<Rightarrow> Inl e | Inr eps \<Rightarrow> Inr (i # eps)))"

fun py_max :: "int list \<Rightarrow> error + int" where
  "py_max [] = Inl (ValueError [])"
| "py_max (x # xs) = Inr (fold max xs x)"

text \<open>The f-string \<^verbatim>\<open>f'model_states/{epoch}.pt'\<close>.\<close>

definition checkpoint_path :: "int \<Rightarrow> string" where
  "checkpoint_path epoch = ''model_states/'' @ py_str_int epoch @ ''.pt''"

definition torch_load :: "'t world \<Rightarrow> string \<Rightarrow> error + 't stats" where
  "torch_load w path =
     (case map_of (fs w) path of
        None \<Rightarrow> Inl (FileNotFoundError path)
      | Some (Checkpoint st) \<Rightarrow> Inr st
      | Some _ \<Rightarrow> Inl (UnpicklingError path))"

definition stats_item :: "'t stats \<Rightarrow> string \<Rightarrow> error + 't statval" where
  "stats_item st k = (case st k of None \<Rightarrow> Inl (KeyError k) | Some v \<Rightarrow> Inr v)"

text \<open>The three objects \<^verbatim>\<open>main\<close> holds and hands to \<^verbatim>\<open>train\<close>, which mutates them.\<close>

record 't learner =
  model :: "'t module"
  optim :: sgd
  scaler :: grad_scaler

definition load_model_optim_scaler ::
  "'t torch \<Rightarrow> config \<Rightarrow> 't world \<Rightarrow> (error + 't learner \<times> int) \<times> 't world" where
  "load_model_optim_scaler c cfg w =
     (case cfg_item cfg ''num_classes'' of
        Inl e \<Rightarrow> (Inl e, w)
      | Inr nc \<Rightarrow>
     (let model_instance =
            \<lparr>params = CustomResNet18 c nc, grad = None, training = True, device = CStr ''cpu''\<rparr>;
          model_states = glob_model_states w
      in case setup_optimizer cfg model_instance of
        Inl e \<Rightarrow> (Inl e, w)
      | Inr opt \<Rightarrow>
     (let sc = GradScaler c (cfg_get cfg ''use_amp'' (CBool False))
      in if length model_states \<noteq> 0 then
     (case model_epochs model_states of
        Inl e \<Rightarrow> (Inl e, w)
      | Inr eps \<Rightarrow>
     (case py_max eps of
        Inl e \<Rightarrow> (Inl e, w)
      | Inr start_epoch \<Rightarrow>
     (let w1 = py_print (PrResuming start_epoch) w
      in case torch_load w1 (checkpoint_path start_epoch) of
        Inl e \<Rightarrow> (Inl e, w1)
      | Inr state \<Rightarrow>
     (case stats_item state ''model'' of
        Inl e \<Rightarrow> (Inl e, w1)
      | Inr sm \<Rightarrow>
     (case Module_load_state_dict model_instance sm of
        Inl e \<Rightarrow> (Inl e, w1)
      | Inr m1 \<Rightarrow>
     (case stats_item state ''optim'' of
        Inl e \<Rightarrow> (Inl e, w1)
      | Inr so \<Rightarrow>
     (case SGD_load_state_dict opt so of
        Inl e \<Rightarrow> (Inl e, w1)
      | Inr opt1 \<Rightarrow>
     (case stats_item state ''scaler'' of
        Inl e \<Rightarrow> (Inl e, w1)
      | Inr ss \<Rightarrow>
     (case GradScaler_load_state_dict sc ss of
        Inl e \<Rightarrow> (Inl e, w1)
      | Inr sc1 \<Rightarrow>
          (Inr (\<lparr>model = m1, optim = opt1, scaler = sc1\<rparr>, start_epoch), w1))))))))))
      else
        (Inr (\<lparr>model = model_instance, optim = opt, scaler = sc\<rparr>, 0),
         py_print PrStartingNew w))))"

text \<open>
  \<^verbatim>\<open>save_model\<close> stores the three state dictionaries into the dictionary its caller
  passed, pickles that dictionary to the file named by the epoch, and writes the
  configuration beside it unless that file exists. The result is the caller's
  dictionary as the call leaves it, and the world. (\<^verbatim>\<open>os.makedirs\<close> has no effect on
  a store that is a list of paths.)
\<close>

definition save_model ::
  "config \<Rightarrow> int \<Rightarrow> 't module \<Rightarrow> sgd \<Rightarrow> grad_scaler \<Rightarrow> 't stats \<Rightarrow> 't world
   \<Rightarrow> 't stats \<times> 't world" where
  "save_model cfg epoch m opt sc stats w =
     (let stats1 = stats(''model'' \<mapsto> SModel (params m));
          stats2 = stats1(''optim'' \<mapsto> SOptim opt);
          stats3 = stats2(''scaler'' \<mapsto> SScaler (GradScaler_state_dict sc));
          fs1 = AList.update (checkpoint_path epoch) (Checkpoint stats3) (fs w);
          cfpath = ''model_states/config.yaml'';
          fs2 = (if map_of fs1 cfpath = None
                 then AList.update cfpath (ConfigYaml cfg) fs1 else fs1)
      in (stats3, w\<lparr>fs := fs2\<rparr>))"


section \<open>The epoch runners\<close>

text \<open>The running sums and the three timing buckets of one epoch, with the last clock
  reading.\<close>

record running =
  loss_total :: real
  oa_total :: real
  dataloader_time :: real
  model_time :: real
  postprocessing_time :: real
  last_time :: real

definition running0 :: "real \<Rightarrow> running" where
  "running0 t =
     \<lparr>loss_total = 0, oa_total = 0, dataloader_time = 0, model_time = 0,
      postprocessing_time = 0, last_time = t\<rparr>"

text \<open>One iteration of the loop of \<^verbatim>\<open>train\<close> (lines 145 to 201).\<close>

definition train_batch ::
  "'t torch \<Rightarrow> config \<Rightarrow> cfgval \<Rightarrow> nat \<Rightarrow> 't \<times> 't \<Rightarrow> running \<Rightarrow> 't learner \<Rightarrow> 't world
   \<Rightarrow> running \<times> 't learner \<times> 't world" where
  "train_batch c cfg dev idx batch a l w =
     (let data = to_device c dev (fst batch);
          labels = to_device c dev (snd batch);
          (now1, w1) = time_sync w;
          a1 = a\<lparr>dataloader_time := dataloader_time a + (now1 - last_time a),
                 last_time := now1\<rparr>;
          ac = \<lparr>device_type = dev,
                ac_enabled = truthy (cfg_get cfg ''use_amp'' (CBool False))\<rparr>;
          m = model l;
          prediction = forward c (params m) (training m) ac data;
          loss = CrossEntropyLoss c (Some ac) prediction labels;
          g = backward c (params m) (training m) ac data labels
                (GradScaler_scale (scaler l)) (grad m);
          (m1, sc1) = GradScaler_step c (scaler l) (optim l) (m\<lparr>grad := Some g\<rparr>) g;
          sc2 = GradScaler_update sc1;
          m2 = m1\<lparr>grad := None\<rparr>;
          (now2, w2) = time_sync w1;
          a2 = a1\<lparr>model_time := model_time a1 + (now2 - last_time a1), last_time := now2\<rparr>;
          a3 = a2\<lparr>loss_total := loss_total a2 + loss\<rparr>;
          pred_label = argmax c prediction;
          oa = mean_eq c pred_label labels;
          a4 = a3\<lparr>oa_total := oa_total a3 + oa\<rparr>;
          w3 = py_print (PbDescription ''[Train]'' (loss_total a4 / real (idx + 1))
                 (100 * oa_total a4 / real (idx + 1))) w2;
          (now3, w4) = time_sync w3;
          a5 = a4\<lparr>postprocessing_time := postprocessing_time a4 + (now3 - last_time a4),
                  last_time := now3\<rparr>
      in (a5, l\<lparr>model := m2, scaler := sc2\<rparr>, w4))"

fun train_loop ::
  "'t torch \<Rightarrow> config \<Rightarrow> cfgval \<Rightarrow> nat \<Rightarrow> ('t \<times> 't) list \<Rightarrow> running \<Rightarrow> 't learner \<Rightarrow> 't world
   \<Rightarrow> running \<times> 't learner \<times> 't world" where
  "train_loop c cfg dev idx [] a l w = (a, l, w)"
| "train_loop c cfg dev idx (batch # rest) a l w =
     (case train_batch c cfg dev idx batch a l w of
        (a', l', w') \<Rightarrow> train_loop c cfg dev (Suc idx) rest a' l' w')"

text \<open>
  \<^verbatim>\<open>train(cfg, dataLoader, model, optimizer, scaler)\<close>. The loader is the list of batches
  it yields. The two divisions of lines 205 and 206 divide by \<^verbatim>\<open>len(dataLoader)\<close>, and
  Python raises \<^verbatim>\<open>ZeroDivisionError\<close> when that is zero.
\<close>

definition train ::
  "'t torch \<Rightarrow> config \<Rightarrow> ('t \<times> 't) list \<Rightarrow> 't learner \<Rightarrow> 't world
   \<Rightarrow> (error + real \<times> real) \<times> 't learner \<times> 't world" where
  "train c cfg dataLoader l w =
     (case cfg_item cfg ''device'' of
        Inl e \<Rightarrow> (Inl e, l, w)
      | Inr dev \<Rightarrow>
          (let l0 = l\<lparr>model := (model l)\<lparr>device := dev, training := True\<rparr>\<rparr>;
               (t0, w0) = time_sync w;
               (a, l1, w1) = train_loop c cfg dev 0 dataLoader (running0 t0) l0 w0
           in if length dataLoader = 0 then (Inl ZeroDivisionError, l1, w1)
              else
                (Inr (loss_total a / real (length dataLoader),
                      oa_total a / real (length dataLoader)),
                 l1,
                 py_print (PrPostprocessingTime (postprocessing_time a))
                   (py_print (PrModelTime (model_time a))
                     (py_print (PrDataloaderTime (dataloader_time a)) w1)))))"

text \<open>One iteration of the loop of \<^verbatim>\<open>validate\<close> (lines 247 to 287), which runs under
  \<^verbatim>\<open>torch.no_grad()\<close> and has no statement that writes to the model.\<close>

definition validate_batch ::
  "'t torch \<Rightarrow> config \<Rightarrow> cfgval \<Rightarrow> nat \<Rightarrow> 't \<times> 't \<Rightarrow> running \<Rightarrow> 't module \<Rightarrow> 't world
   \<Rightarrow> running \<times> 't world" where
  "validate_batch c cfg dev idx batch a m w =
     (let data = to_device c dev (fst batch);
          labels = to_device c dev (snd batch);
          (now1, w1) = time_sync w;
          a1 = a\<lparr>dataloader_time := dataloader_time a + (now1 - last_time a),
                 last_time := now1\<rparr>;
          ac = \<lparr>device_type = CStr ''cuda'',
                ac_enabled = truthy (cfg_get cfg ''use_amp'' (CBool False))\<rparr>;
          prediction = forward c (params m) (training m) ac data;
          loss = CrossEntropyLoss c None prediction labels;
          (now2, w2) = time_sync w1;
          a2 = a1\<lparr>model_time := model_time a1 + (now2 - last_time a1), last_time := now2\<rparr>;
          a3 = a2\<lparr>loss_total := loss_total a2 + loss\<rparr>;
          pred_label = argmax c prediction;
          oa = mean_eq c pred_label labels;
          a4 = a3\<lparr>oa_total := oa_total a3 + oa\<rparr>;
          w3 = py_print (PbDescription ''[Val ]'' (loss_total a4 / real (idx + 1))
                 (100 * oa_total a4 / real (idx + 1))) w2;
          (now3, w4) = time_sync w3;
          a5 = a4\<lparr>postprocessing_time := postprocessing_time a4 + (now3 - last_time a4),
                  last_time := now3\<rparr>
      in (a5, w4))"

fun validate_loop ::
  "'t torch \<Rightarrow> config \<Rightarrow> cfgval \<Rightarrow> nat \<Rightarrow> ('t \<times> 't) list \<Rightarrow> running \<Rightarrow> 't module \<Rightarrow> 't world
   \<Rightarrow> running \<times> 't world" where
  "validate_loop c cfg dev idx [] a m w = (a, w)"
| "validate_loop c cfg dev idx (batch # rest) a m w =
     (case validate_batch c cfg dev idx batch a m w of
        (a', w') \<Rightarrow> validate_loop c cfg dev (Suc idx) rest a' m w')"

definition validate ::
  "'t torch \<Rightarrow> config \<Rightarrow> ('t \<times> 't) list \<Rightarrow> 't module \<Rightarrow> 't world
   \<Rightarrow> (error + real \<times> real) \<times> 't module \<times> 't world" where
  "validate c cfg dataLoader m w =
     (case cfg_item cfg ''device'' of
        Inl e \<Rightarrow> (Inl e, m, w)
      | Inr dev \<Rightarrow>
          (let m0 = m\<lparr>device := dev, training := False\<rparr>;
               (t0, w0) = time_sync w;
               (a, w1) = validate_loop c cfg dev 0 dataLoader (running0 t0) m0 w0
           in if length dataLoader = 0 then (Inl ZeroDivisionError, m0, w1)
              else
                (Inr (loss_total a / real (length dataLoader),
                      oa_total a / real (length dataLoader)),
                 m0,
                 py_print (PrPostprocessingTime (postprocessing_time a))
                   (py_print (PrModelTime (model_time a))
                     (py_print (PrDataloaderTime (dataloader_time a)) w1)))))"


section \<open>The orchestrator\<close>






section \<open>Notions the properties are stated with\<close>

text \<open>
  The values one batch contributes to an epoch's statistics: the loss of the forward
  pass and the fraction of arg-max predictions that equal the label, for a module, the
  autocast region of the forward pass and the region (if any) of the loss.
\<close>

definition batch_values ::
  "'t torch \<Rightarrow> autocast \<Rightarrow> autocast option \<Rightarrow> cfgval \<Rightarrow> 't module \<Rightarrow> 't \<times> 't \<Rightarrow> real \<times> real" where
  "batch_values c ac r dev m batch =
     (let data = to_device c dev (fst batch);
          labels = to_device c dev (snd batch);
          prediction = forward c (params m) (training m) ac data
      in (CrossEntropyLoss c r prediction labels, mean_eq c (argmax c prediction) labels))"

definition train_autocast :: "config \<Rightarrow> cfgval \<Rightarrow> autocast" where
  "train_autocast cfg dev =
     \<lparr>device_type = dev, ac_enabled = truthy (cfg_get cfg ''use_amp'' (CBool False))\<rparr>"

definition validate_autocast :: "config \<Rightarrow> autocast" where
  "validate_autocast cfg =
     \<lparr>device_type = CStr ''cuda'',
      ac_enabled = truthy (cfg_get cfg ''use_amp'' (CBool False))\<rparr>"

text \<open>The per-batch values of a training epoch, in order: each batch is valued with the
  learner as the batches before it left it.\<close>

fun train_values ::
  "'t torch \<Rightarrow> config \<Rightarrow> cfgval \<Rightarrow> nat \<Rightarrow> ('t \<times> 't) list \<Rightarrow> running \<Rightarrow> 't learner \<Rightarrow> 't world
   \<Rightarrow> (real \<times> real) list" where
  "train_values c cfg dev idx [] a l w = []"
| "train_values c cfg dev idx (batch # rest) a l w =
     batch_values c (train_autocast cfg dev) (Some (train_autocast cfg dev)) dev (model l) batch
     # (case train_batch c cfg dev idx batch a l w of
          (a', l', w') \<Rightarrow> train_values c cfg dev (Suc idx) rest a' l' w')"

definition train_epoch_values ::
  "'t torch \<Rightarrow> config \<Rightarrow> cfgval \<Rightarrow> ('t \<times> 't) list \<Rightarrow> 't learner \<Rightarrow> 't world
   \<Rightarrow> (real \<times> real) list" where
  "train_epoch_values c cfg dev dataLoader l w =
     train_values c cfg dev 0 dataLoader (running0 (fst (time_sync w)))
       (l\<lparr>model := (model l)\<lparr>device := dev, training := True\<rparr>\<rparr>) (snd (time_sync w))"

definition validate_epoch_values ::
  "'t torch \<Rightarrow> config \<Rightarrow> cfgval \<Rightarrow> ('t \<times> 't) list \<Rightarrow> 't module \<Rightarrow> (real \<times> real) list" where
  "validate_epoch_values c cfg dev dataLoader m =
     map (batch_values c (validate_autocast cfg) None dev (m\<lparr>device := dev, training := False\<rparr>))
       dataLoader"

definition mean :: "real list \<Rightarrow> real" where
  "mean xs = sum_list xs / real (length xs)"

text \<open>The gradient the backward pass of a training batch leaves in the gradient slot.\<close>

definition batch_gradient :: "'t torch \<Rightarrow> config \<Rightarrow> cfgval \<Rightarrow> 't learner \<Rightarrow> 't \<times> 't \<Rightarrow> 't" where
  "batch_gradient c cfg dev l batch =
     backward c (params (model l)) (training (model l)) (train_autocast cfg dev)
       (to_device c dev (fst batch)) (to_device c dev (snd batch))
       (GradScaler_scale (scaler l)) (grad (model l))"


fun is_epoch_line :: "line \<Rightarrow> bool" where
  "is_epoch_line (PrEpoch k n) = True"
| "is_epoch_line _ = False"

definition epoch_lines :: "'t world \<Rightarrow> line list" where
  "epoch_lines w = filter is_epoch_line (console w)"

text \<open>
  A checkpoint dictionary that \<^verbatim>\<open>load_model_optim_scaler\<close> can consume: it binds the
  three state dictionaries, and the scaler's is not the empty one of a disabled scaler
  when the scaler being set up is enabled. A store is loadable at an epoch when the file
  of that epoch is such a checkpoint.
\<close>

definition holds_state_dicts :: "bool \<Rightarrow> 't stats \<Rightarrow> bool" where
  "holds_state_dicts scaler_enabled st =
     ((case st ''model'' of Some (SModel p) \<Rightarrow> True | _ \<Rightarrow> False) \<and>
      (case st ''optim'' of Some (SOptim opt) \<Rightarrow> True | _ \<Rightarrow> False) \<and>
      (case st ''scaler'' of
         Some (SScaler sd) \<Rightarrow> \<not> (scaler_enabled \<and> sd = None) | _ \<Rightarrow> False))"

definition loadable :: "'t torch \<Rightarrow> config \<Rightarrow> 't world \<Rightarrow> int \<Rightarrow> bool" where
  "loadable c cfg w epoch =
     (case map_of (fs w) (checkpoint_path epoch) of
        Some (Checkpoint st) \<Rightarrow>
          holds_state_dicts (enabled (GradScaler c (cfg_get cfg ''use_amp'' (CBool False)))) st
      | _ \<Rightarrow> False)"

section \<open>A synthetic collaborator for concrete runs\<close>

text \<open>
  Tensors are lists of reals. The network has one parameter \<open>p\<close> and maps a sample \<open>x\<close> to
  the score \<open>p * x\<close>; the predicted class is 1 iff the score is at least one half. All
  tensors live on the CPU, so only an enabled autocast region of device type
  \<^verbatim>\<open>cpu\<close> reduces the precision of the forward pass (here: to integers). The loss is
  the sum of squared errors, the optimizer subtracts the learning rate times the
  gradient, and a gradient entry beyond the single-precision range counts as \<^verbatim>\<open>inf\<close>.
\<close>

definition toy_lr :: "sgd \<Rightarrow> real" where
  "toy_lr opt = (case lr opt of CFloat r \<Rightarrow> r | CInt i \<Rightarrow> of_int i | _ \<Rightarrow> 0)"

definition toy :: "bool \<Rightarrow> real list torch" where
  "toy cuda =
     \<lparr>cuda_is_available = cuda,
      loader_batches =
        (\<lambda>cfg split bs nw. if split = ''train'' then [([1, 1], [1, 1])] else [([1, 0], [1, 1])]),
      CustomResNet18 = (\<lambda>nc. [1]),
      to_device = (\<lambda>dev x. x),
      forward =
        (\<lambda>p tr ac xs.
           map (\<lambda>x. if ac_enabled ac \<and> device_type ac = CStr ''cpu''
                     then of_int \<lfloor>hd p * x\<rfloor> else hd p * x) xs),
      CrossEntropyLoss = (\<lambda>r pred ys. sum_list (map2 (\<lambda>u v. (u - v) * (u - v)) pred ys)),
      backward =
        (\<lambda>p tr ac xs ys k g.
           [k * sum_list (map2 (\<lambda>x y. 2 * (hd p * x - y) * x) xs ys)
            + (case g of None \<Rightarrow> 0 | Some old \<Rightarrow> hd old)]),
      unscale = (\<lambda>k g. map (\<lambda>v. v / k) g),
      nonfinite = list_ex (\<lambda>v. 2 ^ 128 < \<bar>v\<bar>),
      SGD_step = (\<lambda>opt p g. map2 (\<lambda>a b. a - toy_lr opt * b) p g),
      argmax = map (\<lambda>v. if 1 / 2 \<le> v then 1 else 0),
      mean_eq = (\<lambda>a b. real (length (filter (\<lambda>(u, v). u = v) (zip a b))) / real (length b))\<rparr>"

definition cfg_cpu :: config where
  "cfg_cpu =
     [''device'' \<mapsto> CStr ''cpu'', ''batch_size'' \<mapsto> CInt 2, ''num_workers'' \<mapsto> CInt 0,
      ''learning_rate'' \<mapsto> CFloat 0, ''weight_decay'' \<mapsto> CFloat 0,
      ''num_classes'' \<mapsto> CInt 2, ''num_epochs'' \<mapsto> CInt 2]"

definition fresh_process :: process where
  "fresh_process =
     \<lparr>py_random_seed = None, torch_seed = None, cuda_seed = None,
      cudnn_benchmark = False, cudnn_deterministic = False\<rparr>"

definition world0 :: "real list world" where
  "world0 = \<lparr>fs = [], proc = fresh_process, console = [], clock = real, ticks = 0\<rparr>"

definition learner0 :: "bool \<Rightarrow> config \<Rightarrow> real list learner" where
  "learner0 cuda cfg =
     \<lparr>model = \<lparr>params = [1], grad = None, training = True, device = CStr ''cpu''\<rparr>,
      optim = \<lparr>lr = CFloat 1, weight_decay = CFloat 0\<rparr>,
      scaler = GradScaler (toy cuda) (cfg_get cfg ''use_amp'' (CBool False))\<rparr>"
text \<open>Four batches of two samples each, whose accuracies under the parameter 1 are
  1, 1/2, 1/2 and 1.\<close>

definition dl4 :: "(real list \<times> real list) list" where
  "dl4 = [([1, 1], [1, 1]), ([1, 0], [1, 1]), ([0, 1], [1, 1]), ([0, 0], [0, 0])]"

text \<open>The dictionary \<^verbatim>\<open>main\<close> builds after an epoch, a configuration that asks for mixed
  precision, and a batch whose gradient overflows single precision.\<close>

definition stats4 :: "real list stats" where
  "stats4 = [''loss_train'' \<mapsto> SFloat (1/2), ''loss_val'' \<mapsto> SFloat (1/4),
             ''oa_train'' \<mapsto> SFloat (3/4), ''oa_val'' \<mapsto> SFloat 1]"

definition cfg_amp :: config where
  "cfg_amp = cfg_cpu(''use_amp'' \<mapsto> CBool True)"

definition huge_batch :: "real list \<times> real list" where
  "huge_batch = ([2 ^ 70], [0])"

definition small_batch :: "real list \<times> real list" where
  "small_batch = ([1], [1])"

text \<open>A batch whose score is one half, and a configuration that asks for a GPU.\<close>

definition half_batch :: "real list \<times> real list" where
  "half_batch = ([1 / 2], [0])"


text \<open>A checkpoint as \<^verbatim>\<open>save_model\<close> writes it under a disabled scaler, and a store that
  lists the checkpoints 3, 7 and 5, in that order, around the configuration file.\<close>

definition checkpoint0 :: "real list stats" where
  "checkpoint0 =
     stats4(''model'' \<mapsto> SModel [2], ''optim'' \<mapsto> SOptim \<lparr>lr = CFloat 1, weight_decay = CFloat 0\<rparr>,
            ''scaler'' \<mapsto> SScaler None)"

definition store375 :: "real list world" where
  "store375 =
     world0\<lparr>fs :=
       [(''model_states/3.pt'', Checkpoint checkpoint0),
        (''model_states/config.yaml'', ConfigYaml cfg_cpu),
        (''model_states/7.pt'', Checkpoint checkpoint0),
        (''model_states/5.pt'', Checkpoint checkpoint0)]\<rparr>"

section \<open>Decimal text round trip and checkpoint paths\<close>

text \<open>Parsing the decimal text of a number gives the number back, so the name of a
  checkpoint file determines its epoch.\<close>

lemma is_digit_digit_char [simp]: "d < 10 \<Longrightarrow> is_digit (digit_char d)"
  by (simp add: is_digit_def digit_char_def)

lemma digit_val_digit_char [simp]: "d < 10 \<Longrightarrow> digit_val (digit_char d) = d"
  by (simp add: digit_val_def digit_char_def)

lemma dec_digits: "\<forall>ch \<in> set (dec n). is_digit ch"
proof (induction n rule: dec.induct)
  case (1 n)
  show ?case
  proof (cases "n < 10")
    case True
    then show ?thesis by (subst dec.simps) (simp add: is_digit_digit_char)
  next
    case False
    with 1 show ?thesis by (subst dec.simps) (simp add: is_digit_digit_char)
  qed
qed

lemma dec_nonempty: "dec n \<noteq> []"
  by (subst dec.simps) simp

lemma parse_digits_append:
  "\<forall>ch \<in> set ds. is_digit ch \<Longrightarrow> d < 10 \<Longrightarrow>
   parse_digits acc b ds = Some v \<Longrightarrow>
   parse_digits acc b (ds @ [digit_char d]) = Some (v * 10 + d)"
proof (induction ds arbitrary: acc b)
  case Nil
  then show ?case by (simp add: is_digit_digit_char digit_val_digit_char split: if_splits)
next
  case (Cons a ds)
  then show ?case by simp
qed

lemma parse_digits_snoc_Nil:
  "d < 10 \<Longrightarrow> parse_digits acc b [digit_char d] = Some (acc * 10 + d)"
  by (simp add: is_digit_digit_char digit_val_digit_char)

lemma parse_digits_dec: "parse_digits 0 False (dec n) = Some n"
proof (induction n rule: dec.induct)
  case (1 n)
  show ?case
  proof (cases "n < 10")
    case True
    then show ?thesis by (subst dec.simps) (simp add: parse_digits_snoc_Nil)
  next
    case False
    then have ih: "parse_digits 0 False (dec (n div 10)) = Some (n div 10)"
      using 1 by simp
    have "parse_digits 0 False (dec (n div 10) @ [digit_char (n mod 10)])
          = Some ((n div 10) * 10 + n mod 10)"
      by (rule parse_digits_append [OF dec_digits _ ih]) simp
    with False show ?thesis by (subst dec.simps) simp
  qed
qed

lemma digit_not_space: "is_digit ch \<Longrightarrow> \<not> is_space ch"
  by (auto simp: is_digit_def is_space_def)

lemma py_strip_digits:
  assumes "\<forall>ch \<in> set s. is_digit ch"
  shows "py_strip s = s"
proof -
  have a: "dropWhile is_space s = s"
    using assms by (cases s) (auto simp: digit_not_space)
  have b: "dropWhile is_space (rev s) = rev s"
    using assms by (cases "rev s") (auto simp: digit_not_space dest: arg_cong [where f = set])
  show ?thesis by (simp add: py_strip_def a b)
qed

lemma py_int_dec: "py_int (dec n) = Inr (int n)"
proof -
  obtain ch cs where s: "dec n = ch # cs"
    using dec_nonempty [of n] by (cases "dec n") auto
  have "is_digit ch" using dec_digits [of n] s by simp
  then have ne: "ch \<noteq> CHR ''-''" "ch \<noteq> CHR ''+''"
    by (auto simp: is_digit_def)
  have "py_strip (dec n) = ch # cs"
    using py_strip_digits [OF dec_digits, of n] s by simp
  moreover have "parse_digits 0 False (ch # cs) = Some n"
    using parse_digits_dec [of n] s by simp
  ultimately show ?thesis
    using ne unfolding py_int_def by simp
qed


lemma replace_ne_digits_pt:
  "\<forall>ch \<in> set ds. is_digit ch \<Longrightarrow> replace_ne (ds @ ''.pt'') ''.pt'' [] = ds"
  by (induction ds) (auto simp: is_digit_def)

lemma replace_ne_no_prefix:
  "\<forall>ch \<in> set ds. is_digit ch \<Longrightarrow>
   replace_ne (ds @ ''.pt'') ''model_states/'' [] = ds @ ''.pt''"
  by (induction ds) (auto simp: is_digit_def)

lemma epoch_of_path:
  "py_int (py_replace (py_replace (checkpoint_path (int n)) ''model_states/'' []) ''.pt'' [])
   = Inr (int n)"
proof -
  have "replace_ne (''model_states/'' @ dec n @ ''.pt'') ''model_states/'' []
        = replace_ne (dec n @ ''.pt'') ''model_states/'' []"
    by simp
  then show ?thesis
    by (simp add: py_replace_def checkpoint_path_def py_str_int_def replace_ne_no_prefix
        replace_ne_digits_pt dec_digits py_int_dec del: replace_ne.simps)
qed

lemma matches_pt_checkpoint_path: "matches_pt (checkpoint_path (int n))"
proof -
  obtain ch cs where s: "dec n = ch # cs"
    using dec_nonempty [of n] by (cases "dec n") auto
  have d: "\<forall>x \<in> set (dec n). is_digit x" by (rule dec_digits)
  have "is_digit ch" using d s by simp
  then have "ch \<noteq> CHR ''.''" by (auto simp: is_digit_def)
  moreover have "CHR ''/'' \<notin> set (dec n)"
    using d by (auto simp: is_digit_def)
  ultimately show ?thesis
    using s by (simp add: matches_pt_def checkpoint_path_def py_str_int_def)
qed

lemma not_matches_config: "\<not> matches_pt ''model_states/config.yaml''"
  by (simp add: matches_pt_def)



lemma checkpoint_path_not_config: "checkpoint_path a \<noteq> ''model_states/config.yaml''"
proof
  assume "checkpoint_path a = ''model_states/config.yaml''"
  then have "last (checkpoint_path a) = last ''model_states/config.yaml''" by simp
  then show False by (simp add: checkpoint_path_def)
qed

section \<open>What the epoch runners compute and what they leave alone\<close>

text \<open>Printing and reading the clock touch the console and the tick count only; the
  running sums of an epoch are the sums of the per-batch values.\<close>

lemma py_print_simps [simp]:
  "console (py_print x w) = console w @ [x]"
  "fs (py_print x w) = fs w"
  "proc (py_print x w) = proc w"
  "clock (py_print x w) = clock w"
  "ticks (py_print x w) = ticks w"
  by (simp_all add: py_print_def)

lemma time_sync_simps [simp]:
  "fst (time_sync w) = clock w (ticks w)"
  "console (snd (time_sync w)) = console w"
  "fs (snd (time_sync w)) = fs w"
  "proc (snd (time_sync w)) = proc w"
  "clock (snd (time_sync w)) = clock w"
  "ticks (snd (time_sync w)) = Suc (ticks w)"
  by (simp_all add: time_sync_def)


lemma epoch_lines_time_sync [simp]: "epoch_lines (snd (time_sync w)) = epoch_lines w"
  by (simp add: epoch_lines_def)

lemma train_batch_totals:
  "loss_total (fst (train_batch c cfg dev idx b a l w)) =
     loss_total a
     + fst (batch_values c (train_autocast cfg dev) (Some (train_autocast cfg dev)) dev (model l) b)"
  "oa_total (fst (train_batch c cfg dev idx b a l w)) =
     oa_total a
     + snd (batch_values c (train_autocast cfg dev) (Some (train_autocast cfg dev)) dev (model l) b)"
  by (simp_all add: train_batch_def batch_values_def train_autocast_def Let_def split_beta)


lemma train_loop_totals:
  "loss_total (fst (train_loop c cfg dev idx bs a l w)) =
     loss_total a + sum_list (map fst (train_values c cfg dev idx bs a l w))"
  "oa_total (fst (train_loop c cfg dev idx bs a l w)) =
     oa_total a + sum_list (map snd (train_values c cfg dev idx bs a l w))"
proof (induction bs arbitrary: idx a l w)
  case Nil
  { case 1 show ?case by simp }
  { case 2 show ?case by simp }
next
  case (Cons b bs)
  { case 1 show ?case
      using Cons.IH(1) train_batch_totals(1) [of c cfg dev idx b a l w]
      by (simp add: split_beta) }
  { case 2 show ?case
      using Cons.IH(2) train_batch_totals(2) [of c cfg dev idx b a l w]
      by (simp add: split_beta) }
qed


lemma length_train_values: "length (train_values c cfg dev idx bs a l w) = length bs"
  by (induction bs arbitrary: idx a l w) (simp_all add: split_beta)

lemma validate_batch_totals:
  "loss_total (fst (validate_batch c cfg dev idx b a m w)) =
     loss_total a + fst (batch_values c (validate_autocast cfg) None dev m b)"
  "oa_total (fst (validate_batch c cfg dev idx b a m w)) =
     oa_total a + snd (batch_values c (validate_autocast cfg) None dev m b)"
  by (simp_all add: validate_batch_def batch_values_def validate_autocast_def Let_def split_beta)


lemma validate_loop_totals:
  "loss_total (fst (validate_loop c cfg dev idx bs a m w)) =
     loss_total a + sum_list (map (\<lambda>b. fst (batch_values c (validate_autocast cfg) None dev m b)) bs)"
  "oa_total (fst (validate_loop c cfg dev idx bs a m w)) =
     oa_total a + sum_list (map (\<lambda>b. snd (batch_values c (validate_autocast cfg) None dev m b)) bs)"
  by (induction bs arbitrary: idx a w) (simp_all add: split_beta validate_batch_totals)


lemma running0_simps [simp]: "loss_total (running0 t) = 0" "oa_total (running0 t) = 0"
  by (simp_all add: running0_def)

lemma train_result:
  assumes "cfg ''device'' = Some dev" and "dataLoader \<noteq> []"
  shows "fst (train c cfg dataLoader l w) =
     Inr (mean (map fst (train_epoch_values c cfg dev dataLoader l w)),
          mean (map snd (train_epoch_values c cfg dev dataLoader l w)))"
  using assms
  by (simp add: train_def cfg_item_def Let_def split_beta train_loop_totals mean_def
      train_epoch_values_def length_train_values time_sync_def)

lemma train_empty:
  assumes "cfg ''device'' = Some dev"
  shows "fst (train c cfg [] l w) = Inl ZeroDivisionError"
  using assms by (simp add: train_def cfg_item_def Let_def split_beta)

lemma train_no_device:
  assumes "cfg ''device'' = None"
  shows "train c cfg dataLoader l w = (Inl (KeyError ''device''), l, w)"
  using assms by (simp add: train_def cfg_item_def)


lemma validate_result:
  assumes "cfg ''device'' = Some dev" and "dataLoader \<noteq> []"
  shows "fst (validate c cfg dataLoader m w) =
     Inr (mean (map fst (validate_epoch_values c cfg dev dataLoader m)),
          mean (map snd (validate_epoch_values c cfg dev dataLoader m)))"
  using assms
  by (simp add: validate_def cfg_item_def Let_def split_beta validate_loop_totals mean_def
      validate_epoch_values_def comp_def)

lemma validate_empty:
  assumes "cfg ''device'' = Some dev"
  shows "fst (validate c cfg [] m w) = Inl ZeroDivisionError"
  using assms by (simp add: validate_def cfg_item_def Let_def split_beta)



text \<open>What a training batch does to the learner, and what \<^verbatim>\<open>save_model\<close> writes.\<close>

lemma train_batch_learner:
  "fst (snd (train_batch c cfg dev idx b a l w)) =
     (let g = batch_gradient c cfg dev l b;
          r = GradScaler_step c (scaler l) (optim l) ((model l)\<lparr>grad := Some g\<rparr>) g
      in l\<lparr>model := (fst r)\<lparr>grad := None\<rparr>, scaler := GradScaler_update (snd r)\<rparr>)"
  by (simp add: train_batch_def Let_def split_beta batch_gradient_def train_autocast_def)

lemma save_model_stats:
  "fst (save_model cfg epoch m opt sc stats w) =
     stats(''model'' \<mapsto> SModel (params m), ''optim'' \<mapsto> SOptim opt,
           ''scaler'' \<mapsto> SScaler (GradScaler_state_dict sc))"
  by (simp add: save_model_def Let_def)

lemma save_model_file:
  "torch_load (snd (save_model cfg epoch m opt sc stats w)) (checkpoint_path epoch) =
     Inr (fst (save_model cfg epoch m opt sc stats w))"
  by (simp add: save_model_def Let_def torch_load_def update_conv' checkpoint_path_not_config)



section \<open>The synthetic collaborator, unfolded\<close>

lemma toy_simps [simp]:
  "to_device (toy cuda) dev x = x"
  "forward (toy cuda) p tr ac xs =
     map (\<lambda>x. if ac_enabled ac \<and> device_type ac = CStr ''cpu''
               then of_int \<lfloor>hd p * x\<rfloor> else hd p * x) xs"
  "CrossEntropyLoss (toy cuda) r pred ys = sum_list (map2 (\<lambda>u v. (u - v) * (u - v)) pred ys)"
  "argmax (toy cuda) = map (\<lambda>v. if 1 / 2 \<le> v then 1 else 0)"
  "mean_eq (toy cuda) a b = real (length (filter (\<lambda>(u, v). u = v) (zip a b))) / real (length b)"
  "cuda_is_available (toy cuda) = cuda"
  "unscale (toy cuda) k g = map (\<lambda>v. v / k) g"
  "nonfinite (toy cuda) = list_ex (\<lambda>v. 2 ^ 128 < \<bar>v\<bar>)"
  "SGD_step (toy cuda) opt p g = map2 (\<lambda>a b. a - toy_lr opt * b) p g"
  "backward (toy cuda) p tr ac xs ys k og =
     [k * sum_list (map2 (\<lambda>x y. 2 * (hd p * x - y) * x) xs ys)
      + (case og of None \<Rightarrow> 0 | Some old \<Rightarrow> hd old)]"
  by (simp_all add: toy_def)

lemma cfg_cpu_device: "cfg_cpu ''device'' = Some (CStr ''cpu'')"
  by (simp add: cfg_cpu_def)

lemma val4: "validate_epoch_values (toy False) cfg_cpu (CStr ''cpu'') dl4 (model (learner0 False cfg_cpu))
  = [(0, 1), (1, 1/2), (1, 1/2), (0, 1)]"
  by (simp add: validate_epoch_values_def dl4_def batch_values_def learner0_def validate_autocast_def
      cfg_cpu_def cfg_get_def)

lemma train4: "train_epoch_values (toy False) cfg_cpu (CStr ''cpu'') dl4 (learner0 False cfg_cpu) world0
  = [(0, 1), (1, 1/2), (1, 1/2), (0, 1)]"
  by (simp add: train_epoch_values_def dl4_def batch_values_def learner0_def train_autocast_def
      cfg_cpu_def cfg_get_def train_batch_def Let_def split_beta GradScaler_def GradScaler_step_def
      GradScaler_update_def GradScaler_scale_def toy_lr_def)

lemma cfg_amp_device: "cfg_amp ''device'' = Some (CStr ''cpu'')"
  by (simp add: cfg_amp_def cfg_cpu_def)

lemma grad_huge_enabled:
  "batch_gradient (toy True) cfg_amp (CStr ''cpu'') (learner0 True cfg_amp) huge_batch = [2 ^ 157]"
  by (simp add: batch_gradient_def learner0_def huge_batch_def GradScaler_scale_def GradScaler_def
      cfg_amp_def cfg_get_def train_autocast_def)

lemma grad_huge_disabled:
  "batch_gradient (toy False) cfg_cpu (CStr ''cpu'') (learner0 False cfg_cpu) huge_batch = [2 ^ 141]"
  by (simp add: batch_gradient_def learner0_def huge_batch_def GradScaler_scale_def GradScaler_def
      cfg_cpu_def cfg_get_def train_autocast_def)

lemma grad_small_enabled:
  "batch_gradient (toy True) cfg_amp (CStr ''cpu'') (learner0 True cfg_amp) small_batch = [0]"
  by (simp add: batch_gradient_def learner0_def small_batch_def GradScaler_scale_def GradScaler_def
      cfg_amp_def cfg_get_def train_autocast_def)

lemma learner0_simps:
  "enabled (scaler (learner0 True cfg_amp))"
  "\<not> enabled (scaler (learner0 False cfg_cpu))"
  "scale (scaler (learner0 cuda cfg)) = 65536"
  "params (model (learner0 cuda cfg)) = [1]"
  "toy_lr (optim (learner0 cuda cfg)) = 1"
  by (simp_all add: learner0_def GradScaler_def cfg_amp_def cfg_cpu_def cfg_get_def toy_lr_def)

lemma amp_train_values:
  "train_epoch_values (toy False) cfg_amp (CStr ''cpu'') [half_batch] (learner0 False cfg_amp) world0
     = [(0, 1)]"
  by (simp add: train_epoch_values_def half_batch_def batch_values_def learner0_def
      train_autocast_def cfg_amp_def cfg_get_def split_beta)

lemma amp_validate_values:
  "validate_epoch_values (toy False) cfg_amp (CStr ''cpu'') [half_batch] (model (learner0 False cfg_amp))
     = [(1 / 4, 0)]"
  by (simp add: validate_epoch_values_def half_batch_def batch_values_def learner0_def
      validate_autocast_def cfg_amp_def cfg_get_def)

section \<open>The orchestrator's configuration, loop and store\<close>


lemma holds_state_dictsD:
  assumes "holds_state_dicts e st"
  shows "\<exists>p opt sd. st ''model'' = Some (SModel p) \<and> st ''optim'' = Some (SOptim opt) \<and>
           st ''scaler'' = Some (SScaler sd) \<and> \<not> (e \<and> sd = None)"
proof -
  from assms have m: "case st ''model'' of Some (SModel p) \<Rightarrow> True | _ \<Rightarrow> False"
    and ob: "case st ''optim'' of Some (SOptim opt) \<Rightarrow> True | _ \<Rightarrow> False"
    and sb: "case st ''scaler'' of Some (SScaler sd) \<Rightarrow> \<not> (e \<and> sd = None) | _ \<Rightarrow> False"
    by (simp_all add: holds_state_dicts_def)
  from m obtain p where "st ''model'' = Some (SModel p)"
    by (cases "st ''model''"; simp split: statval.splits)
  moreover from ob obtain opt where "st ''optim'' = Some (SOptim opt)"
    by (cases "st ''optim''"; simp split: statval.splits)
  moreover from sb obtain sd where "st ''scaler'' = Some (SScaler sd)" "\<not> (e \<and> sd = None)"
    by (cases "st ''scaler''"; simp split: statval.splits)
  ultimately show ?thesis by blast
qed

lemma loadableD:
  assumes "loadable c cfg w epoch"
  shows "\<exists>st. map_of (fs w) (checkpoint_path epoch) = Some (Checkpoint st) \<and>
           holds_state_dicts (enabled (GradScaler c (cfg_get cfg ''use_amp'' (CBool False)))) st"
  using assms
  by (cases "map_of (fs w) (checkpoint_path epoch)"; simp add: loadable_def split: stored.splits)

lemma model_epochs_paths:
  "model_epochs (map (\<lambda>n. checkpoint_path (int n)) ns) = Inr (map int ns)"
  by (induction ns) (simp_all add: epoch_of_path)

lemma py_max_nats:
  "ns \<noteq> [] \<Longrightarrow> py_max (map int ns) = Inr (int (Max (set ns)))"
proof -
  assume "ns \<noteq> []"
  then obtain x xs where ns: "ns = x # xs" by (cases ns) auto
  have "fold max (map int xs) (int x) = Max (set (int x # map int xs))"
    by (rule Max.set_eq_fold [symmetric])
  also have "\<dots> = Max (int ` set (x # xs))" by simp
  also have "\<dots> = int (Max (set (x # xs)))"
    by (rule mono_Max_commute [symmetric]) (auto simp: mono_def)
  finally show ?thesis by (simp add: ns)
qed

lemma load_start_epoch:
  assumes keys: "cfg ''num_classes'' = Some nc" "cfg ''learning_rate'' = Some l0"
      "cfg ''weight_decay'' = Some wd"
    and listing: "glob_model_states w = map (\<lambda>n. checkpoint_path (int n)) ns"
  shows "console (snd (load_model_optim_scaler c cfg w)) =
           console w @ [if ns = [] then PrStartingNew else PrResuming (int (Max (set ns)))]"
    and "(ns \<noteq> [] \<longrightarrow> loadable c cfg w (int (Max (set ns)))) \<Longrightarrow>
         \<exists>l. fst (load_model_optim_scaler c cfg w) =
               Inr (l, if ns = [] then 0 else int (Max (set ns)))"
proof -
  show "console (snd (load_model_optim_scaler c cfg w)) =
           console w @ [if ns = [] then PrStartingNew else PrResuming (int (Max (set ns)))]"
    using keys listing
    by (cases "ns = []")
       (simp_all add: load_model_optim_scaler_def cfg_item_def setup_optimizer_def Let_def
          model_epochs_paths py_max_nats split: sum.splits)
next
  assume ok: "ns \<noteq> [] \<longrightarrow> loadable c cfg w (int (Max (set ns)))"
  show "\<exists>l. fst (load_model_optim_scaler c cfg w) =
               Inr (l, if ns = [] then 0 else int (Max (set ns)))"
  proof (cases "ns = []")
    case True
    with keys listing show ?thesis
      by (simp add: load_model_optim_scaler_def cfg_item_def setup_optimizer_def Let_def)
  next
    case False
    with ok have "loadable c cfg w (int (Max (set ns)))" by simp
    then obtain st p opt sd where
      f: "map_of (fs w) (checkpoint_path (int (Max (set ns)))) = Some (Checkpoint st)"
      and st: "st ''model'' = Some (SModel p)" "st ''optim'' = Some (SOptim opt)"
        "st ''scaler'' = Some (SScaler sd)"
      and sd: "\<not> (enabled (GradScaler c (cfg_get cfg ''use_amp'' (CBool False))) \<and> sd = None)"
      by (blast dest: loadableD holds_state_dictsD)
    from False keys listing f st sd show ?thesis
      by (auto simp: load_model_optim_scaler_def cfg_item_def setup_optimizer_def Let_def
          model_epochs_paths py_max_nats torch_load_def stats_item_def
          Module_load_state_dict_def SGD_load_state_dict_def GradScaler_load_state_dict_def
          split: option.splits)
  qed
qed







section \<open>The number of epochs the loop runs\<close>



section \<open>Resuming from the latest checkpoint\<close>

text \<open>
  Claim C2. Let the store list the checkpoint files of the identifiers \<open>ns\<close>, in any
  order, with gaps or not, and let the configuration bind the keys the setup reads.
  Then \<^verbatim>\<open>load_model_optim_scaler\<close> announces a new model when \<open>ns\<close> is empty and
  otherwise that it resumes from the maximum of \<open>ns\<close>; and when the checkpoint of that
  maximum can be loaded, it returns the maximum as the starting epoch, and 0 on an
  empty store. Over a store that lists 3, 7 and 5 it returns 7.
\<close>

theorem find_latest:
  "cfg ''num_classes'' = Some nc \<Longrightarrow> cfg ''learning_rate'' = Some l0 \<Longrightarrow>
   cfg ''weight_decay'' = Some wd \<Longrightarrow>
   glob_model_states w = map (\<lambda>n. checkpoint_path (int n)) ns \<Longrightarrow>
   console (snd (load_model_optim_scaler c cfg w)) =
     console w @ [if ns = [] then PrStartingNew else PrResuming (int (Max (set ns)))] \<and>
   ((ns \<noteq> [] \<longrightarrow> loadable c cfg w (int (Max (set ns)))) \<longrightarrow>
      (\<exists>l. fst (load_model_optim_scaler c cfg w) =
            Inr (l, if ns = [] then 0 else int (Max (set ns)))))"
  using load_start_epoch [where cfg = cfg and nc = nc and ?l0.0 = l0 and wd = wd and w = w
      and ns = ns and c = c]
  by blast

theorem find_latest_witness:
  "glob_model_states store375 = map (\<lambda>n. checkpoint_path (int n)) [3, 7, 5] \<and>
   loadable (toy False) cfg_cpu store375 7 \<and>
   console (snd (load_model_optim_scaler (toy False) cfg_cpu store375)) = [PrResuming 7] \<and>
   (\<exists>l. fst (load_model_optim_scaler (toy False) cfg_cpu store375) = Inr (l, 7)) \<and>
   (\<exists>l. fst (load_model_optim_scaler (toy False) cfg_cpu world0) = Inr (l, 0))"
proof -
  have p: "checkpoint_path 3 = ''model_states/3.pt''" "checkpoint_path 7 = ''model_states/7.pt''"
    "checkpoint_path 5 = ''model_states/5.pt''"
    by code_simp+
  have g: "glob_model_states store375 = map (\<lambda>n. checkpoint_path (int n)) [3, 7, 5]"
    by (simp add: p glob_model_states_def store375_def world0_def matches_pt_def)
  have g0: "glob_model_states world0 = map (\<lambda>n. checkpoint_path (int n)) []"
    by (simp add: glob_model_states_def world0_def)
  have k: "cfg_cpu ''num_classes'' = Some (CInt 2)" "cfg_cpu ''learning_rate'' = Some (CFloat 0)"
    "cfg_cpu ''weight_decay'' = Some (CFloat 0)"
    by (simp_all add: cfg_cpu_def)
  have ld: "loadable (toy False) cfg_cpu store375 7"
    by (simp add: loadable_def p store375_def world0_def holds_state_dicts_def checkpoint0_def
        GradScaler_def)
  have c0: "console store375 = []" "console world0 = []"
    by (simp_all add: store375_def world0_def)
  have m: "Max (set [3, 7, 5 :: nat]) = 7"
    by simp
  show ?thesis
    using find_latest [where cfg = cfg_cpu and nc = "CInt 2" and ?l0.0 = "CFloat 0"
        and wd = "CFloat 0" and w = store375 and ns = "[3, 7, 5]" and c = "toy False"]
      find_latest [where cfg = cfg_cpu and nc = "CInt 2" and ?l0.0 = "CFloat 0"
        and wd = "CFloat 0" and w = world0 and ns = "[]" and c = "toy False"]
      g g0 k ld
    by (simp add: c0 m)
qed

section \<open>The scaler decides whether the optimizer steps\<close>

text \<open>
  Claim C3, as the code has it. For every training batch, with the gradient the scaled
  backward pass leaves: when the gradient scaler is enabled and the gradient is
  non-finite, the optimizer step is skipped, the parameters are unchanged by the batch
  and the scale is halved, so it strictly decreases when it is positive; when the
  scaler is enabled and the gradient is finite, the optimizer steps on the unscaled
  gradient; when the scaler is disabled, the optimizer steps whatever the gradient is
  and the scale does not change. A batch leaves the scaler enabled or disabled as it
  was, and the scaler \<^verbatim>\<open>load_model_optim_scaler\<close> constructs is enabled iff \<^verbatim>\<open>use_amp\<close>
  is set to a true value and CUDA is available.
\<close>

theorem scaler_step_cases:
  "(enabled (scaler l) \<and> nonfinite c (batch_gradient c cfg dev l b) \<longrightarrow>
      params (model (fst (snd (train_batch c cfg dev idx b a l w)))) = params (model l) \<and>
      scale (scaler (fst (snd (train_batch c cfg dev idx b a l w)))) = scale (scaler l) * 0.5 \<and>
      (0 < scale (scaler l) \<longrightarrow>
         scale (scaler (fst (snd (train_batch c cfg dev idx b a l w)))) < scale (scaler l))) \<and>
   (enabled (scaler l) \<and> \<not> nonfinite c (batch_gradient c cfg dev l b) \<longrightarrow>
      params (model (fst (snd (train_batch c cfg dev idx b a l w)))) =
        SGD_step c (optim l) (params (model l))
          (unscale c (scale (scaler l)) (batch_gradient c cfg dev l b))) \<and>
   (\<not> enabled (scaler l) \<longrightarrow>
      params (model (fst (snd (train_batch c cfg dev idx b a l w)))) =
        SGD_step c (optim l) (params (model l)) (batch_gradient c cfg dev l b) \<and>
      scale (scaler (fst (snd (train_batch c cfg dev idx b a l w)))) = scale (scaler l)) \<and>
   enabled (scaler (fst (snd (train_batch c cfg dev idx b a l w)))) = enabled (scaler l) \<and>
   enabled (GradScaler c (cfg_get cfg ''use_amp'' (CBool False))) =
     (truthy (cfg_get cfg ''use_amp'' (CBool False)) \<and> cuda_is_available c)"
  by (simp add: train_batch_learner GradScaler_step_def GradScaler_update_def GradScaler_def Let_def)

theorem scaler_step_cases_witness:
  "(enabled (scaler (learner0 True cfg_amp)) \<and>
    nonfinite (toy True)
      (batch_gradient (toy True) cfg_amp (CStr ''cpu'') (learner0 True cfg_amp) huge_batch) \<and>
    0 < scale (scaler (learner0 True cfg_amp)) \<and>
    params (model (fst (snd (train_batch (toy True) cfg_amp (CStr ''cpu'') 0 huge_batch (running0 0)
        (learner0 True cfg_amp) world0)))) = [1] \<and>
    scale (scaler (fst (snd (train_batch (toy True) cfg_amp (CStr ''cpu'') 0 huge_batch (running0 0)
        (learner0 True cfg_amp) world0)))) = 32768) \<and>
   (\<not> nonfinite (toy True)
      (batch_gradient (toy True) cfg_amp (CStr ''cpu'') (learner0 True cfg_amp) small_batch) \<and>
    params (model (fst (snd (train_batch (toy True) cfg_amp (CStr ''cpu'') 0 small_batch (running0 0)
        (learner0 True cfg_amp) world0)))) = [1]) \<and>
   (\<not> enabled (scaler (learner0 False cfg_cpu)) \<and>
    params (model (fst (snd (train_batch (toy False) cfg_cpu (CStr ''cpu'') 0 huge_batch (running0 0)
        (learner0 False cfg_cpu) world0)))) = [1 - 2 ^ 141] \<and>
    scale (scaler (fst (snd (train_batch (toy False) cfg_cpu (CStr ''cpu'') 0 huge_batch (running0 0)
        (learner0 False cfg_cpu) world0)))) = 65536)"
proof -
  have n: "nonfinite (toy True)
      (batch_gradient (toy True) cfg_amp (CStr ''cpu'') (learner0 True cfg_amp) huge_batch)"
    by (simp add: grad_huge_enabled)
  have f: "\<not> nonfinite (toy True)
      (batch_gradient (toy True) cfg_amp (CStr ''cpu'') (learner0 True cfg_amp) small_batch)"
    by (simp add: grad_small_enabled)
  show ?thesis
    using scaler_step_cases [of "learner0 True cfg_amp" "toy True" cfg_amp "CStr ''cpu''" huge_batch
        0 "running0 0" world0]
      scaler_step_cases [of "learner0 True cfg_amp" "toy True" cfg_amp "CStr ''cpu''" small_batch
        0 "running0 0" world0]
      scaler_step_cases [of "learner0 False cfg_cpu" "toy False" cfg_cpu "CStr ''cpu''" huge_batch
        0 "running0 0" world0]
      n f
    by (simp add: learner0_simps grad_small_enabled grad_huge_disabled)
qed

text \<open>
  The claim read that a non-finite gradient always makes the batch skip the optimizer
  step and shrink the scale. Under the default configuration (no \<^verbatim>\<open>use_amp\<close>) the
  scaler is disabled: on a batch whose gradient overflows, the parameters change and
  the scale does not decrease.
\<close>

theorem disabled_scaler_steps_on_inf:
  "nonfinite (toy False)
     (batch_gradient (toy False) cfg_cpu (CStr ''cpu'') (learner0 False cfg_cpu) huge_batch) \<and>
   params (model (fst (snd (train_batch (toy False) cfg_cpu (CStr ''cpu'') 0 huge_batch (running0 0)
       (learner0 False cfg_cpu) world0)))) \<noteq> params (model (learner0 False cfg_cpu)) \<and>
   \<not> scale (scaler (fst (snd (train_batch (toy False) cfg_cpu (CStr ''cpu'') 0 huge_batch (running0 0)
       (learner0 False cfg_cpu) world0)))) < scale (scaler (learner0 False cfg_cpu))"
  by (simp add: grad_huge_disabled train_batch_learner GradScaler_step_def GradScaler_update_def
      Let_def learner0_simps)

section \<open>An epoch over no batches\<close>

text \<open>
  Claim C4, as the code has it. The division by the batch count is not guarded: given an
  empty batch sequence (and a configuration that names a device), the training runner
  and the validation runner both raise Python's generic \<^verbatim>\<open>ZeroDivisionError\<close> from
  the mean computation. No separate empty-input error exists.
\<close>

theorem empty_loader_raises:
  "cfg ''device'' = Some dev \<Longrightarrow>
   fst (train c cfg [] l w) = Inl ZeroDivisionError \<and>
   fst (validate c cfg [] m w) = Inl ZeroDivisionError"
  by (simp add: train_empty validate_empty)

theorem empty_loader_raises_witness:
  "cfg_cpu ''device'' = Some (CStr ''cpu'') \<and>
   fst (train (toy False) cfg_cpu [] (learner0 False cfg_cpu) world0) = Inl ZeroDivisionError \<and>
   fst (validate (toy False) cfg_cpu [] (model (learner0 False cfg_cpu)) world0)
     = Inl ZeroDivisionError"
  using empty_loader_raises [where cfg = cfg_cpu and dev = "CStr ''cpu''" and c = "toy False"
      and l = "learner0 False cfg_cpu" and w = world0 and m = "model (learner0 False cfg_cpu)"]
    cfg_cpu_device
  by simp

text \<open>The claim read that the runner reports a distinct empty-input error rather than
  the generic division failure. On an empty loader the training runner raises exactly
  the generic one.\<close>

theorem empty_loader_generic_error:
  "fst (train (toy False) cfg_cpu [] (learner0 False cfg_cpu) world0) = Inl ZeroDivisionError"
  by (rule train_empty [where cfg = cfg_cpu and dev = "CStr ''cpu''"]) (rule cfg_cpu_device)

section \<open>Seeding\<close>




section \<open>Who writes to the configuration\<close>




section \<open>The autocast regions of the two runners\<close>

text \<open>
  Claim C7 does not hold of the code. The claim: the validation runner runs the training
  runner's per-batch pipeline, with the same autocast region, conditioned on the
  configured device and the mixed-precision flag. The code: \<^verbatim>\<open>validate\<close> opens its
  region with the constant device type \<^verbatim>\<open>'cuda'\<close> and computes the loss outside it,
  where \<^verbatim>\<open>train\<close> opens the region with the configured device around the forward
  pass and the loss. Under a configuration with device \<^verbatim>\<open>cpu\<close> and \<^verbatim>\<open>use_amp\<close> set,
  the two regions differ, and on the synthetic collaborator the two runners report
  different losses and accuracies for the same parameters and the same batch.
\<close>

theorem validate_autocast_differs:
  "train_autocast cfg_amp (CStr ''cpu'') = \<lparr>device_type = CStr ''cpu'', ac_enabled = True\<rparr> \<and>
   validate_autocast cfg_amp = \<lparr>device_type = CStr ''cuda'', ac_enabled = True\<rparr> \<and>
   fst (train (toy False) cfg_amp [half_batch] (learner0 False cfg_amp) world0) = Inr (0, 1) \<and>
   fst (validate (toy False) cfg_amp [half_batch] (model (learner0 False cfg_amp)) world0)
     = Inr (1 / 4, 0)"
proof -
  have d: "cfg_amp ''device'' = Some (CStr ''cpu'')" by (rule cfg_amp_device)
  have ne: "[half_batch] \<noteq> []" by simp
  have t: "fst (train (toy False) cfg_amp [half_batch] (learner0 False cfg_amp) world0) = Inr (0, 1)"
    using train_result [where cfg = cfg_amp and dev = "CStr ''cpu''" and dataLoader = "[half_batch]"
        and c = "toy False" and l = "learner0 False cfg_amp" and w = world0] d
    by (simp add: amp_train_values mean_def)
  have v: "fst (validate (toy False) cfg_amp [half_batch] (model (learner0 False cfg_amp)) world0)
     = Inr (1 / 4, 0)"
    using validate_result [where cfg = cfg_amp and dev = "CStr ''cpu''"
        and dataLoader = "[half_batch]" and c = "toy False"
        and m = "model (learner0 False cfg_amp)" and w = world0] d
    by (simp add: amp_validate_values mean_def)
  show ?thesis
    using t v by (simp add: train_autocast_def validate_autocast_def cfg_amp_def cfg_get_def)
qed

section \<open>Validation leaves the parameters alone\<close>



section \<open>The reported means\<close>

text \<open>
  Claim C9. For a non-empty batch sequence (and a configuration that names a device),
  the pair an epoch runner returns is the sum of the per-batch losses and the sum of the
  per-batch accuracies, each divided by the batch count: the arithmetic means of the
  per-batch values, of which there is one per batch. This holds for the training runner
  and for the validation runner. Four batches of accuracies 1, 1/2, 1/2, 1 give 3/4.
\<close>

theorem epoch_runner_means:
  "cfg ''device'' = Some dev \<Longrightarrow> dataLoader \<noteq> [] \<Longrightarrow>
   fst (train c cfg dataLoader l w) =
     Inr (mean (map fst (train_epoch_values c cfg dev dataLoader l w)),
          mean (map snd (train_epoch_values c cfg dev dataLoader l w))) \<and>
   length (train_epoch_values c cfg dev dataLoader l w) = length dataLoader \<and>
   fst (validate c cfg dataLoader m w) =
     Inr (mean (map fst (validate_epoch_values c cfg dev dataLoader m)),
          mean (map snd (validate_epoch_values c cfg dev dataLoader m))) \<and>
   length (validate_epoch_values c cfg dev dataLoader m) = length dataLoader"
  by (simp add: train_result validate_result train_epoch_values_def length_train_values
      validate_epoch_values_def)

theorem epoch_runner_means_witness:
  "cfg_cpu ''device'' = Some (CStr ''cpu'') \<and> dl4 \<noteq> [] \<and>
   map snd (validate_epoch_values (toy False) cfg_cpu (CStr ''cpu'') dl4 (model (learner0 False cfg_cpu)))
     = [1, 1/2, 1/2, 1] \<and>
   fst (validate (toy False) cfg_cpu dl4 (model (learner0 False cfg_cpu)) world0) = Inr (1/2, 3/4) \<and>
   fst (train (toy False) cfg_cpu dl4 (learner0 False cfg_cpu) world0) = Inr (1/2, 3/4)"
proof -
  have ne: "dl4 \<noteq> []" by (simp add: dl4_def)
  show ?thesis
    using epoch_runner_means [where cfg = cfg_cpu and dev = "CStr ''cpu''" and dataLoader = dl4
        and c = "toy False" and l = "learner0 False cfg_cpu" and w = world0
        and m = "model (learner0 False cfg_cpu)"] cfg_cpu_device ne
    by (simp add: val4 train4 mean_def)
qed

section \<open>Saving mutates the caller's dictionary\<close>

text \<open>
  Claim C10. \<^verbatim>\<open>save_model\<close> writes into the \<^verbatim>\<open>stats\<close> dictionary of its caller: when
  it returns, the dictionary binds \<^verbatim>\<open>'model'\<close>, \<^verbatim>\<open>'optim'\<close> and \<^verbatim>\<open>'scaler'\<close> to the
  state dictionaries of the model, the optimizer and the scaler, its keys are the old
  ones and these three, every other key keeps its value (for \<^verbatim>\<open>main\<close>: the four
  scalar statistics), and the checkpoint file of the epoch holds that dictionary.
\<close>

theorem save_model_mutates_stats:
  "fst (save_model cfg epoch m opt sc stats w) =
     stats(''model'' \<mapsto> SModel (params m), ''optim'' \<mapsto> SOptim opt,
           ''scaler'' \<mapsto> SScaler (GradScaler_state_dict sc)) \<and>
   dom (fst (save_model cfg epoch m opt sc stats w)) = dom stats \<union> {''model'', ''optim'', ''scaler''} \<and>
   (\<forall>k. k \<notin> {''model'', ''optim'', ''scaler''} \<longrightarrow>
        fst (save_model cfg epoch m opt sc stats w) k = stats k) \<and>
   torch_load (snd (save_model cfg epoch m opt sc stats w)) (checkpoint_path epoch) =
     Inr (fst (save_model cfg epoch m opt sc stats w))"
  by (auto simp: save_model_stats save_model_file)

theorem save_model_mutates_stats_witness:
  "dom (fst (save_model cfg_cpu 1 (model (learner0 False cfg_cpu)) (optim (learner0 False cfg_cpu))
              (scaler (learner0 False cfg_cpu)) stats4 world0))
     = {''loss_train'', ''loss_val'', ''oa_train'', ''oa_val'', ''model'', ''optim'', ''scaler''} \<and>
   fst (save_model cfg_cpu 1 (model (learner0 False cfg_cpu)) (optim (learner0 False cfg_cpu))
          (scaler (learner0 False cfg_cpu)) stats4 world0) ''model'' = Some (SModel [1]) \<and>
   fst (save_model cfg_cpu 1 (model (learner0 False cfg_cpu)) (optim (learner0 False cfg_cpu))
          (scaler (learner0 False cfg_cpu)) stats4 world0) ''oa_val'' = Some (SFloat 1)"
  using save_model_mutates_stats [of cfg_cpu 1 "model (learner0 False cfg_cpu)"
      "optim (learner0 False cfg_cpu)" "scaler (learner0 False cfg_cpu)" stats4 world0]
  by (auto simp: stats4_def learner0_def)

end
